theory Spec2Isabelle
  imports Complex_Main
begin

section \<open>NodeMaterialRuntimeHelper: the uniform ledger and its bind dispatch\<close>

text \<open>
  A shallow embedding of \<^verbatim>\<open>Materials/Node/Replay/nodeMaterialRuntimeHelper.ts\<close>.
  The helper's own statements are modelled line by line. Its collaborators (Matrix,
  Observable, ShaderMaterial, Effect, Scene, the mesh, NodeMaterial and its input blocks)
  are declared elsewhere in the engine; each one appears here as plain data, and every
  call the helper makes on one of them is either a read of that data or an event that is
  recorded.
\<close>

subsection \<open>JavaScript values\<close>

text \<open>
  \<^verbatim>\<open>directValue?: any\<close> and an input block's \<^verbatim>\<open>value\<close> hold any JavaScript value.
  Numbers are kept abstract (type \<open>'n\<close>). An object records what the helper can observe
  of it: the string its \<^verbatim>\<open>getClassName()\<close> returns, \<open>None\<close> when it has no such
  method, and its own properties.
\<close>

datatype 'n any =
    JSUndefined
  | JSNull
  | JSBoolean bool
  | JSNumber 'n
  | JSString string
  | JSObject "string option" "(string \<times> 'n any) list"

text \<open>
  The primitives of the language and of the Matrix class that the helper relies on:
  \<open>Identity\<close> is the content of \<^verbatim>\<open>Matrix.Identity()\<close>, \<open>multiply a b\<close> the content that
  \<^verbatim>\<open>a.multiplyToRef(b, result)\<close> writes into \<^verbatim>\<open>result\<close>, \<open>literal\<close> a numeric literal,
  \<open>divide\<close> the operator \<^verbatim>\<open>/\<close> on numbers, and \<open>truthyNumber\<close> the truth value of a
  number in a condition (false for zero and NaN).
\<close>

record ('m, 'n) Primitives =
  Identity :: 'm
  multiply :: "'m \<Rightarrow> 'm \<Rightarrow> 'm"
  literal :: "int \<Rightarrow> 'n"
  divide :: "'n \<Rightarrow> 'n \<Rightarrow> 'n"
  truthyNumber :: "'n \<Rightarrow> bool"

text \<open>The truth value of \<^verbatim>\<open>if (v)\<close>.\<close>

fun truthy :: "('m, 'n) Primitives \<Rightarrow> 'n any \<Rightarrow> bool" where
  "truthy P JSUndefined = False"
| "truthy P JSNull = False"
| "truthy P (JSBoolean b) = b"
| "truthy P (JSNumber x) = truthyNumber P x"
| "truthy P (JSString s) = (s \<noteq> [])"
| "truthy P (JSObject c ps) = True"

text \<open>Property read \<^verbatim>\<open>v.p\<close> on a truthy value: a missing property reads as undefined.\<close>

fun getProperty :: "'n any \<Rightarrow> string \<Rightarrow> 'n any" where
  "getProperty (JSObject c ps) p = (case map_of ps p of Some v \<Rightarrow> v | None \<Rightarrow> JSUndefined)"
| "getProperty v p = JSUndefined"

datatype error = TypeError string

text \<open>
  The method call \<^verbatim>\<open>value.getClassName()\<close> on a truthy value: a value without that
  method raises \<^verbatim>\<open>TypeError: value.getClassName is not a function\<close>.
\<close>

fun getClassName :: "'n any \<Rightarrow> error + string" where
  "getClassName (JSObject (Some c) ps) = Inr c"
| "getClassName v = Inl (TypeError ''value.getClassName is not a function'')"

subsection \<open>The enumeration of system values\<close>

text \<open>
  \<^verbatim>\<open>NodeMaterialSystemValues\<close> is a numeric enumeration declared in
  \<^verbatim>\<open>../Enums/nodeMaterialSystemValues\<close>. At run time it is an object with one numeric
  property per member; the helper reads the ten members below. The codes are a
  parameter of the model.
\<close>

record NodeMaterialSystemValues =
  World :: int
  WorldView :: int
  WorldViewProjection :: int
  View :: int
  Projection :: int
  ViewProjection :: int
  CameraPosition :: int
  FogColor :: int
  DeltaTime :: int
  CameraParameters :: int

text \<open>The members in the order of the \<^verbatim>\<open>case\<close> labels of the bind handler.\<close>

definition members :: "NodeMaterialSystemValues \<Rightarrow> int list" where
  "members sv = [World sv, WorldView sv, WorldViewProjection sv, View sv, Projection sv,
     ViewProjection sv, CameraPosition sv, FogColor sv, DeltaTime sv, CameraParameters sv]"

text \<open>
  A well-formed declaration gives its members different codes, none of them zero (the
  helper tests \<^verbatim>\<open>entry.systemValueType\<close> for truth before it looks at its value).
\<close>

definition wellFormedEnum :: "NodeMaterialSystemValues \<Rightarrow> bool" where
  "wellFormedEnum sv \<longleftrightarrow> distinct (members sv) \<and> 0 \<notin> set (members sv)"

subsection \<open>Ledger entries and the ledger\<close>

text \<open>
  \<^verbatim>\<open>IUniformLedgerEntry\<close>: both properties are optional. An absent (or null)
  \<^verbatim>\<open>systemValueType\<close> is \<open>None\<close>; an absent \<^verbatim>\<open>directValue\<close> is \<open>JSUndefined\<close>.
\<close>

record 'n IUniformLedgerEntry =
  systemValueType :: "int option"
  directValue :: "'n any"

definition emptyEntry :: "'n IUniformLedgerEntry" where
  "emptyEntry = \<lparr>systemValueType = None, directValue = JSUndefined\<rparr>"

text \<open>
  The ledger \<^verbatim>\<open>{ [key: string]: IUniformLedgerEntry }\<close> is a list of its own properties
  in the order \<^verbatim>\<open>for (const key in ...)\<close> enumerates them: the order of first
  assignment (property names are shader identifiers: never an array index, which
  would be enumerated first, and never \<^verbatim>\<open>__proto__\<close>).
  \<open>ledgerSet\<close> is the assignment \<^verbatim>\<open>ledger[key] = entry\<close>.
\<close>

type_synonym 'n UniformLedger = "(string \<times> 'n IUniformLedgerEntry) list"

fun ledgerSet :: "string \<Rightarrow> 'n IUniformLedgerEntry \<Rightarrow> 'n UniformLedger \<Rightarrow> 'n UniformLedger" where
  "ledgerSet key entry [] = [(key, entry)]"
| "ledgerSet key entry ((k, e) # rest) =
     (if k = key then (key, entry) # rest else (k, e) # ledgerSet key entry rest)"

subsection \<open>The node material and its input blocks\<close>

text \<open>What the build handler reads of an input block.\<close>

record 'n InputBlock =
  isUniform :: bool
  associatedVariableName :: string
  isSystemValue :: bool
  systemValue :: "int option"
  blockValue :: "'n any"

record 'n NodeMaterial =
  compilationVertex :: string
  compilationFragment :: string
  getInputBlocks :: "'n InputBlock list"
  getScene :: nat

subsection \<open>Matrices in a store\<close>

text \<open>
  Matrix objects are mutable and shared, so they live in a store: an address names one
  object, \<open>cells\<close> gives its content, and the addresses below \<open>allocated\<close> are in use.
\<close>

type_synonym addr = nat

record 'm Store =
  cells :: "addr \<Rightarrow> 'm"
  allocated :: addr

text \<open>
  Modelled from the spec: \<^verbatim>\<open>Matrix.Identity()\<close> of the Matrix class, which is declared
  outside this component. Each call allocates a new matrix object.
\<close>

definition newIdentity :: "('m, 'n) Primitives \<Rightarrow> 'm Store \<Rightarrow> addr \<times> 'm Store" where
  "newIdentity P st =
     (allocated st, st\<lparr>cells := (cells st)(allocated st := Identity P), allocated := Suc (allocated st)\<rparr>)"

text \<open>
  Modelled from the spec: \<^verbatim>\<open>a.multiplyToRef(b, result)\<close> of the same class. The
  product of \<^verbatim>\<open>a\<close> and \<^verbatim>\<open>b\<close> overwrites the object \<^verbatim>\<open>result\<close> in place; nothing is
  allocated.
\<close>

definition multiplyToRef :: "('m, 'n) Primitives \<Rightarrow> addr \<Rightarrow> addr \<Rightarrow> addr \<Rightarrow> 'm Store \<Rightarrow> 'm Store" where
  "multiplyToRef P a b result st =
     st\<lparr>cells := (cells st)(result := multiply P (cells st a) (cells st b))\<rparr>"

subsection \<open>Scene, mesh and the effect's uniform interface\<close>

record 'n Camera =
  minZ :: 'n
  maxZ :: 'n

text \<open>
  What the bind handler reads of the scene: the matrix objects returned by
  \<^verbatim>\<open>getViewMatrix()\<close>, \<^verbatim>\<open>getProjectionMatrix()\<close> and \<^verbatim>\<open>getTransformMatrix()\<close>,
  \<^verbatim>\<open>fogColor\<close>, \<^verbatim>\<open>deltaTime\<close>, \<^verbatim>\<open>activeCamera\<close> (\<open>None\<close> when null) and
  \<^verbatim>\<open>getEngine().hasOriginBottomLeft\<close>.
\<close>

record 'n Scene =
  getViewMatrix :: addr
  getProjectionMatrix :: addr
  getTransformMatrix :: addr
  fogColor :: "'n any"
  deltaTime :: 'n
  activeCamera :: "'n Camera option"
  hasOriginBottomLeft :: bool

record Mesh =
  getWorldMatrix :: addr

text \<open>
  The calls the handler makes on the effect, and the one it delegates to the scene
  (\<^verbatim>\<open>scene.bindEyePosition(effect, key, true)\<close>). A matrix argument is recorded as the
  object passed together with its content at the time of the call, which is what the
  effect uploads.
\<close>

datatype ('m, 'n) Call =
    setMatrix string addr 'm
  | setColor3 string "'n any"
  | setColor4 string "'n any" "'n any"
  | setVector3 string "'n any"
  | setVector4 string "'n any"
  | setFloat string 'n
  | setFloat4 string 'n 'n 'n 'n
  | bindEyePosition string bool

fun uniformName :: "('m, 'n) Call \<Rightarrow> string" where
  "uniformName (setMatrix k a m) = k"
| "uniformName (setColor3 k v) = k"
| "uniformName (setColor4 k v al) = k"
| "uniformName (setVector3 k v) = k"
| "uniformName (setVector4 k v) = k"
| "uniformName (setFloat k x) = k"
| "uniformName (setFloat4 k x y z w) = k"
| "uniformName (bindEyePosition k b) = k"

subsection \<open>The helper\<close>

record ShaderMaterial =
  shaderName :: string
  shaderScene :: nat
  vertexSource :: string
  fragmentSource :: string
  uniforms :: "string list"
  bindHandlers :: nat

text \<open>
  The fields of the class. \<open>shaderMaterial\<close> is \<open>None\<close> while the field is undefined or
  null. \<open>onShaderMaterialCreatedObservable\<close> is the list of its registered observers.
\<close>

record 'n NodeMaterialRuntimeHelper =
  material :: "'n NodeMaterial"
  shaderMaterial :: "ShaderMaterial option"
  uniformLedger :: "'n UniformLedger"
  cachedWorldViewMatrix :: addr
  cachedWorldViewProjectionMatrix :: addr
  onShaderMaterialCreatedObservable :: "nat list"

text \<open>The getter \<^verbatim>\<open>ledger\<close>.\<close>

definition ledger :: "'n NodeMaterialRuntimeHelper \<Rightarrow> 'n UniformLedger" where
  "ledger h = uniformLedger h"

text \<open>
  What the helper does to the outside: it notifies an observer that the shader material
  exists, and it disposes a shader material.
\<close>

datatype Event =
    ShaderMaterialCreated nat ShaderMaterial
  | ShaderMaterialDisposed ShaderMaterial

text \<open>
  The helper in its surroundings: \<open>onBuildObservable\<close> tells whether the callback the
  constructor registered with \<^verbatim>\<open>material.onBuildObservable.addOnce\<close> is still
  registered, \<open>store\<close> holds the matrices, \<open>events\<close> what the helper has done so far.
\<close>

record ('m, 'n) System =
  helper :: "'n NodeMaterialRuntimeHelper"
  onBuildObservable :: bool
  store :: "'m Store"
  events :: "Event list"

subsection \<open>Construction\<close>

text \<open>
  The field initialisers and the constructor: an empty ledger, two scratch matrices,
  an observable without observers, no shader material yet, and the build callback
  registered once with the material.
\<close>

definition construct :: "('m, 'n) Primitives \<Rightarrow> 'n NodeMaterial \<Rightarrow> 'm Store \<Rightarrow> ('m, 'n) System" where
  "construct P mat st =
     (let (wv, st1) = newIdentity P st;
          (wvp, st2) = newIdentity P st1
      in \<lparr>helper = \<lparr>material = mat, shaderMaterial = None, uniformLedger = [],
                     cachedWorldViewMatrix = wv, cachedWorldViewProjectionMatrix = wvp,
                     onShaderMaterialCreatedObservable = []\<rparr>,
          onBuildObservable = True, store = st2, events = []\<rparr>)"

subsection \<open>The build handler\<close>

text \<open>
  The entry the loop over the input blocks makes for one uniform block: a fresh object,
  which receives \<^verbatim>\<open>systemValueType\<close> when the block is a system value and otherwise
  \<^verbatim>\<open>directValue\<close> when \<^verbatim>\<open>inputBlock.value\<close> is truthy.
\<close>

definition entryFor :: "('m, 'n) Primitives \<Rightarrow> 'n InputBlock \<Rightarrow> 'n IUniformLedgerEntry" where
  "entryFor P inputBlock =
     (if isSystemValue inputBlock then emptyEntry\<lparr>systemValueType := systemValue inputBlock\<rparr>
      else if truthy P (blockValue inputBlock) then emptyEntry\<lparr>directValue := blockValue inputBlock\<rparr>
      else emptyEntry)"

text \<open>The loop itself, on the pair of the local list \<^verbatim>\<open>uniforms\<close> and the ledger.\<close>

fun extractUniforms ::
  "('m, 'n) Primitives \<Rightarrow> 'n InputBlock list \<Rightarrow> string list \<times> 'n UniformLedger \<Rightarrow> string list \<times> 'n UniformLedger" where
  "extractUniforms P [] acc = acc"
| "extractUniforms P (inputBlock # rest) (names, led) =
     (if isUniform inputBlock
      then extractUniforms P rest
             (names @ [associatedVariableName inputBlock],
              ledgerSet (associatedVariableName inputBlock) (entryFor P inputBlock) led)
      else extractUniforms P rest (names, led))"

text \<open>
  The callback given to \<^verbatim>\<open>addOnce\<close>: fill the ledger, create the shader material, add
  the bind handler to it, notify the observers of \<^verbatim>\<open>onShaderMaterialCreatedObservable\<close>.
\<close>

definition buildHandler :: "('m, 'n) Primitives \<Rightarrow> ('m, 'n) System \<Rightarrow> ('m, 'n) System" where
  "buildHandler P s =
     (let h = helper s;
          mat = material h;
          (names, led) = extractUniforms P (getInputBlocks mat) ([], uniformLedger h);
          sm = \<lparr>shaderName = ''shaderMaterial'', shaderScene = getScene mat,
                vertexSource = compilationVertex mat, fragmentSource = compilationFragment mat,
                uniforms = names, bindHandlers = 1\<rparr>
      in s\<lparr>helper := h\<lparr>uniformLedger := led, shaderMaterial := Some sm\<rparr>,
            events := events s @ map (\<lambda>ob. ShaderMaterialCreated ob sm) (onShaderMaterialCreatedObservable h)\<rparr>)"

text \<open>
  Modelled from the spec: the material's build-complete signal, whose Observable class is
  declared outside this component. It is a one-shot signal: a callback registered with
  \<^verbatim>\<open>addOnce\<close> runs at the first notification and is unregistered by it.
\<close>

definition notifyBuild :: "('m, 'n) Primitives \<Rightarrow> ('m, 'n) System \<Rightarrow> ('m, 'n) System" where
  "notifyBuild P s = (if onBuildObservable s then buildHandler P (s\<lparr>onBuildObservable := False\<rparr>) else s)"

subsection \<open>Disposal\<close>

text \<open>
  \<^verbatim>\<open>dispose()\<close>: a shader material that is there is disposed and the field set to null;
  then the observers of \<^verbatim>\<open>onShaderMaterialCreatedObservable\<close> are cleared. No other field
  is assigned, and nothing is removed from the material's build observable.
\<close>

definition dispose :: "('m, 'n) System \<Rightarrow> ('m, 'n) System" where
  "dispose s =
     (let s1 = (case shaderMaterial (helper s) of
                  Some sm \<Rightarrow> s\<lparr>helper := (helper s)\<lparr>shaderMaterial := None\<rparr>,
                               events := events s @ [ShaderMaterialDisposed sm]\<rparr>
                | None \<Rightarrow> s)
      in s1\<lparr>helper := (helper s1)\<lparr>onShaderMaterialCreatedObservable := []\<rparr>\<rparr>)"

subsection \<open>The bind handler\<close>

text \<open>
  The \<^verbatim>\<open>switch\<close> on a truthy \<^verbatim>\<open>entry.systemValueType\<close>, label by label in the order of
  the source; a value that matches no label falls out of the switch. Each branch
  returns the store and the calls it makes. (The \<^verbatim>\<open>return\<close> that follows the
  \<^verbatim>\<open>break\<close> of the third label is never reached.)
\<close>

definition bindSystemValue ::
  "('m, 'n) Primitives \<Rightarrow> NodeMaterialSystemValues \<Rightarrow> 'n NodeMaterialRuntimeHelper \<Rightarrow> Mesh \<Rightarrow> 'n Scene \<Rightarrow>
   string \<Rightarrow> int \<Rightarrow> 'm Store \<Rightarrow> 'm Store \<times> ('m, 'n) Call list" where
  "bindSystemValue P sv h mesh scene key t st =
     (if t = World sv then
        (st, [setMatrix key (getWorldMatrix mesh) (cells st (getWorldMatrix mesh))])
      else if t = WorldView sv then
        (let st' = multiplyToRef P (getWorldMatrix mesh) (getViewMatrix scene) (cachedWorldViewMatrix h) st
         in (st', [setMatrix key (cachedWorldViewMatrix h) (cells st' (cachedWorldViewMatrix h))]))
      else if t = WorldViewProjection sv then
        (let st' = multiplyToRef P (getWorldMatrix mesh) (getTransformMatrix scene)
                     (cachedWorldViewProjectionMatrix h) st
         in (st', [setMatrix key (cachedWorldViewProjectionMatrix h)
                     (cells st' (cachedWorldViewProjectionMatrix h))]))
      else if t = View sv then
        (st, [setMatrix key (getViewMatrix scene) (cells st (getViewMatrix scene))])
      else if t = Projection sv then
        (st, [setMatrix key (getProjectionMatrix scene) (cells st (getProjectionMatrix scene))])
      else if t = ViewProjection sv then
        (st, [setMatrix key (getTransformMatrix scene) (cells st (getTransformMatrix scene))])
      else if t = CameraPosition sv then
        (st, [bindEyePosition key True])
      else if t = FogColor sv then
        (st, [setColor3 key (fogColor scene)])
      else if t = DeltaTime sv then
        (st, [setFloat key (divide P (deltaTime scene) (literal P 1000))])
      else if t = CameraParameters sv then
        (case activeCamera scene of
           Some camera \<Rightarrow>
             (st, [setFloat4 key (if hasOriginBottomLeft scene then literal P (- 1) else literal P 1)
                     (minZ camera) (maxZ camera) (divide P (literal P 1) (maxZ camera))])
         | None \<Rightarrow> (st, []))
      else (st, []))"

text \<open>
  The \<^verbatim>\<open>else\<close> branch: a truthy \<^verbatim>\<open>directValue\<close> is asked for its class name, which
  raises when the value has no such method; the \<^verbatim>\<open>switch\<close> on the name has four labels.
\<close>

definition bindDirectValue ::
  "('m, 'n) Primitives \<Rightarrow> string \<Rightarrow> 'n any \<Rightarrow> error option \<times> ('m, 'n) Call list" where
  "bindDirectValue P key v =
     (if truthy P v then
        (case getClassName v of
           Inl err \<Rightarrow> (Some err, [])
         | Inr c \<Rightarrow>
             (None,
              if c = ''Vector3'' then [setVector3 key v]
              else if c = ''Vector4'' then [setVector4 key v]
              else if c = ''Color3'' then [setColor3 key v]
              else if c = ''Color4'' then [setColor4 key v (getProperty v ''a'')]
              else []))
      else (None, []))"

text \<open>The truth value of \<^verbatim>\<open>if (entry.systemValueType)\<close>: absent and zero are false.\<close>

fun truthySystemValue :: "int option \<Rightarrow> bool" where
  "truthySystemValue None = False"
| "truthySystemValue (Some t) = (t \<noteq> 0)"

text \<open>
  The body of the loop for one property of the ledger. The result is the exception
  raised, if any, the store, and the calls made.
\<close>

definition bindEntry ::
  "('m, 'n) Primitives \<Rightarrow> NodeMaterialSystemValues \<Rightarrow> 'n NodeMaterialRuntimeHelper \<Rightarrow> Mesh \<Rightarrow> 'n Scene \<Rightarrow>
   string \<Rightarrow> 'n IUniformLedgerEntry \<Rightarrow> 'm Store \<Rightarrow> error option \<times> 'm Store \<times> ('m, 'n) Call list" where
  "bindEntry P sv h mesh scene key entry st =
     (if truthySystemValue (systemValueType entry) then
        (case bindSystemValue P sv h mesh scene key (the (systemValueType entry)) st of
           (st', cs) \<Rightarrow> (None, st', cs))
      else
        (case bindDirectValue P key (directValue entry) of
           (r, cs) \<Rightarrow> (r, st, cs)))"

text \<open>
  The loop \<^verbatim>\<open>for (const key in this._uniformLedger)\<close>. An exception leaves the loop: the
  entries after it are not visited, what was done before it stays done.
\<close>

fun bindLoop ::
  "('m, 'n) Primitives \<Rightarrow> NodeMaterialSystemValues \<Rightarrow> 'n NodeMaterialRuntimeHelper \<Rightarrow> Mesh \<Rightarrow> 'n Scene \<Rightarrow>
   'n UniformLedger \<Rightarrow> 'm Store \<Rightarrow> error option \<times> 'm Store \<times> ('m, 'n) Call list" where
  "bindLoop P sv h mesh scene [] st = (None, st, [])"
| "bindLoop P sv h mesh scene ((key, entry) # rest) st =
     (case bindEntry P sv h mesh scene key entry st of
        (Some err, st', cs) \<Rightarrow> (Some err, st', cs)
      | (None, st', cs) \<Rightarrow>
          (case bindLoop P sv h mesh scene rest st' of
             (r, st'', cs') \<Rightarrow> (r, st'', cs @ cs')))"

text \<open>
  The handler added to the shader material's bind observable, called with the mesh
  being drawn; \<open>scene\<close> is the state of \<^verbatim>\<open>this._material.getScene()\<close> at that moment.
  \<^verbatim>\<open>this._shaderMaterial!.getEffect()\<close> raises when the field is null.
\<close>

definition bindHandler ::
  "('m, 'n) Primitives \<Rightarrow> NodeMaterialSystemValues \<Rightarrow> 'n NodeMaterialRuntimeHelper \<Rightarrow> Mesh \<Rightarrow> 'n Scene \<Rightarrow>
   'm Store \<Rightarrow> error option \<times> 'm Store \<times> ('m, 'n) Call list" where
  "bindHandler P sv h mesh scene st =
     (case shaderMaterial h of
        None \<Rightarrow> (Some (TypeError ''Cannot read properties of null (reading getEffect)''), st, [])
      | Some sm \<Rightarrow> bindLoop P sv h mesh scene (uniformLedger h) st)"

subsection \<open>Notions used in the statements\<close>

text \<open>The two scratch matrices of a helper.\<close>

definition scratchMatrices :: "'n NodeMaterialRuntimeHelper \<Rightarrow> addr set" where
  "scratchMatrices h = {cachedWorldViewMatrix h, cachedWorldViewProjectionMatrix h}"

text \<open>
  The scratch matrices are private fields of the helper, so none of the matrices a mesh
  or a scene hands out is one of them.
\<close>

definition separate :: "'n NodeMaterialRuntimeHelper \<Rightarrow> Mesh \<Rightarrow> 'n Scene \<Rightarrow> bool" where
  "separate h mesh scene \<longleftrightarrow>
     getWorldMatrix mesh \<notin> scratchMatrices h \<and> getViewMatrix scene \<notin> scratchMatrices h
     \<and> getProjectionMatrix scene \<notin> scratchMatrices h \<and> getTransformMatrix scene \<notin> scratchMatrices h"

text \<open>Two stores that differ at most in the scratch matrices.\<close>

definition agree :: "'n NodeMaterialRuntimeHelper \<Rightarrow> 'm Store \<Rightarrow> 'm Store \<Rightarrow> bool" where
  "agree h stA stB \<longleftrightarrow>
     allocated stA = allocated stB \<and> (\<forall>a. a \<notin> scratchMatrices h \<longrightarrow> cells stA a = cells stB a)"

text \<open>The second scratch matrix holds the product of world matrix and transform matrix.\<close>

definition wvpHolds ::
  "('m, 'n) Primitives \<Rightarrow> 'n NodeMaterialRuntimeHelper \<Rightarrow> Mesh \<Rightarrow> 'n Scene \<Rightarrow> 'm Store \<Rightarrow> bool" where
  "wvpHolds P h mesh scene st \<longleftrightarrow>
     cells st (cachedWorldViewProjectionMatrix h)
       = multiply P (cells st (getWorldMatrix mesh)) (cells st (getTransformMatrix scene))"

text \<open>The declarations of a name: the uniform blocks that carry it, in their order.\<close>

definition declarationsOf :: "string \<Rightarrow> 'n InputBlock list \<Rightarrow> 'n InputBlock list" where
  "declarationsOf n blocks = filter (\<lambda>b. isUniform b \<and> associatedVariableName b = n) blocks"

subsection \<open>Example data\<close>

text \<open>
  Numbers as reals; matrices as strings with concatenation as product, which keeps the
  order of the factors visible.
\<close>

definition examplePrimitives :: "(string, real) Primitives" where
  "examplePrimitives = \<lparr>Identity = [], multiply = (@), literal = of_int, divide = (/),
     truthyNumber = (\<lambda>x. x \<noteq> 0)\<rparr>"

definition exampleEnum :: NodeMaterialSystemValues where
  "exampleEnum = \<lparr>World = 1, WorldView = 5, WorldViewProjection = 6, View = 2, Projection = 3,
     ViewProjection = 4, CameraPosition = 7, FogColor = 8, DeltaTime = 9, CameraParameters = 10\<rparr>"

text \<open>A store with the world matrix at 0 and the scene's view, projection and transform matrices at 1, 2, 3.\<close>

definition exampleStore :: "string Store" where
  "exampleStore =
     \<lparr>cells = (\<lambda>a. if a = 0 then ''W'' else if a = 1 then ''V'' else if a = 2 then ''P'' else ''T''),
      allocated = 4\<rparr>"

definition exampleMesh :: Mesh where
  "exampleMesh = \<lparr>getWorldMatrix = 0\<rparr>"

definition exampleScene :: "real Scene" where
  "exampleScene = \<lparr>getViewMatrix = 1, getProjectionMatrix = 2, getTransformMatrix = 3,
     fogColor = JSObject (Some ''Color3'') [], deltaTime = 16,
     activeCamera = Some \<lparr>minZ = 0.1, maxZ = 100\<rparr>, hasOriginBottomLeft = True\<rparr>"

definition exampleTint :: "real any" where
  "exampleTint = JSObject (Some ''Color4'')
     [(''r'', JSNumber 1), (''g'', JSNumber 0), (''b'', JSNumber 0), (''a'', JSNumber 0.5)]"

definition emptyMaterial :: "real NodeMaterial" where
  "emptyMaterial = \<lparr>compilationVertex = ''void main() {}'', compilationFragment = ''void main() {}'',
     getInputBlocks = [], getScene = 0\<rparr>"

text \<open>A system value, a vertex attribute and a four-channel colour.\<close>

definition exampleMaterial :: "real NodeMaterial" where
  "exampleMaterial = \<lparr>compilationVertex = ''void main() {}'', compilationFragment = ''void main() {}'',
     getInputBlocks =
       [\<lparr>isUniform = True, associatedVariableName = ''u_wvp'', isSystemValue = True,
          systemValue = Some 6, blockValue = JSUndefined\<rparr>,
        \<lparr>isUniform = False, associatedVariableName = ''position'', isSystemValue = False,
          systemValue = None, blockValue = JSUndefined\<rparr>,
        \<lparr>isUniform = True, associatedVariableName = ''u_tint'', isSystemValue = False,
          systemValue = None, blockValue = exampleTint\<rparr>],
     getScene = 0\<rparr>"

definition exampleSystem :: "(string, real) System" where
  "exampleSystem = notifyBuild examplePrimitives (construct examplePrimitives exampleMaterial exampleStore)"

definition exampleStoreAfterBind :: "string Store" where
  "exampleStoreAfterBind = \<lparr>cells = (cells exampleStore)(4 := [], 5 := ''WT''), allocated = 6\<rparr>"

text \<open>A float uniform whose value is zero.\<close>

definition zeroFloatMaterial :: "real NodeMaterial" where
  "zeroFloatMaterial = \<lparr>compilationVertex = ''void main() {}'', compilationFragment = ''void main() {}'',
     getInputBlocks =
       [\<lparr>isUniform = True, associatedVariableName = ''u_float'', isSystemValue = False,
          systemValue = None, blockValue = JSNumber 0\<rparr>],
     getScene = 0\<rparr>"

text \<open>A float uniform whose value is one half, followed by the world matrix.\<close>

definition floatMaterial :: "real NodeMaterial" where
  "floatMaterial = \<lparr>compilationVertex = ''void main() {}'', compilationFragment = ''void main() {}'',
     getInputBlocks =
       [\<lparr>isUniform = True, associatedVariableName = ''u_float'', isSystemValue = False,
          systemValue = None, blockValue = JSNumber 0.5\<rparr>,
        \<lparr>isUniform = True, associatedVariableName = ''u_World'', isSystemValue = True,
          systemValue = Some 1, blockValue = JSUndefined\<rparr>],
     getScene = 0\<rparr>"

definition floatSystem :: "(string, real) System" where
  "floatSystem = notifyBuild examplePrimitives (construct examplePrimitives floatMaterial exampleStore)"

text \<open>
  A constructed helper on whose \<^verbatim>\<open>onShaderMaterialCreatedObservable\<close> one observer,
  number 7, has been registered; the build has not happened yet.
\<close>

definition listenerSystem :: "(string, real) System" where
  "listenerSystem =
     (construct examplePrimitives exampleMaterial exampleStore)
       \<lparr>helper := (helper (construct examplePrimitives exampleMaterial exampleStore))
                    \<lparr>onShaderMaterialCreatedObservable := [7]\<rparr>\<rparr>"

section \<open>Properties\<close>

subsection \<open>The ledger as a map\<close>

lemma map_of_ledgerSet: "map_of (ledgerSet k e led) = (map_of led)(k \<mapsto> e)"
  by (induction led) (auto simp: fun_eq_iff)

lemma keys_ledgerSet: "fst ` set (ledgerSet k e led) = insert k (fst ` set led)"
  by (simp add: dom_map_of_conv_image_fst [symmetric] map_of_ledgerSet)

lemma distinct_ledgerSet: "distinct (map fst led) \<Longrightarrow> distinct (map fst (ledgerSet k e led))"
proof (induction led)
  case Nil
  show ?case by simp
next
  case (Cons p led)
  obtain k' e' where p: "p = (k', e')" by (cases p)
  show ?case
  proof (cases "k' = k")
    case True
    with Cons.prems p show ?thesis by simp
  next
    case False
    have "k' \<notin> fst ` set (ledgerSet k e led)"
      using Cons.prems False p by (simp add: keys_ledgerSet)
    with Cons p False show ?thesis by simp
  qed
qed

lemma extractUniforms_names:
  "fst (extractUniforms P blocks (names, led)) = names @ map associatedVariableName (filter isUniform blocks)"
  by (induction blocks arbitrary: names led) auto

lemma extractUniforms_keys:
  "fst ` set (snd (extractUniforms P blocks (names, led)))
     = fst ` set led \<union> associatedVariableName ` {b \<in> set blocks. isUniform b}"
proof (induction blocks arbitrary: names led)
  case Nil
  show ?case by simp
next
  case (Cons b blocks)
  show ?case
  proof (cases "isUniform b")
    case True
    then show ?thesis by (simp add: Cons.IH keys_ledgerSet) blast
  next
    case False
    then show ?thesis by (simp add: Cons.IH) blast
  qed
qed

lemma extractUniforms_distinct:
  "distinct (map fst led) \<Longrightarrow> distinct (map fst (snd (extractUniforms P blocks (names, led))))"
  by (induction blocks arbitrary: names led) (simp_all add: distinct_ledgerSet)

lemma extractUniforms_lookup:
  "map_of (snd (extractUniforms P blocks (names, led))) n =
     (if declarationsOf n blocks = [] then map_of led n
      else Some (entryFor P (last (declarationsOf n blocks))))"
  by (induction blocks arbitrary: names led) (auto simp: declarationsOf_def map_of_ledgerSet)

subsection \<open>What one bind call can change\<close>

lemma bindSystemValue_frame:
  "bindSystemValue P sv h mesh scene key t st = (st', cs) \<Longrightarrow>
     allocated st' = allocated st \<and> (\<forall>a. a \<notin> scratchMatrices h \<longrightarrow> cells st' a = cells st a)"
  by (auto simp: bindSystemValue_def multiplyToRef_def scratchMatrices_def Let_def
      split: if_splits option.splits)

lemma bindSystemValue_names:
  "bindSystemValue P sv h mesh scene key t st = (st', cs) \<Longrightarrow> \<forall>c \<in> set cs. uniformName c = key"
  by (auto simp: bindSystemValue_def Let_def split: if_splits option.splits)

lemma bindDirectValue_names:
  "bindDirectValue P key v = (r, cs) \<Longrightarrow> \<forall>c \<in> set cs. uniformName c = key"
  by (auto simp: bindDirectValue_def split: if_splits sum.splits)

lemma bindEntry_frame:
  "bindEntry P sv h mesh scene key entry st = (r, st', cs) \<Longrightarrow>
     allocated st' = allocated st \<and> (\<forall>a. a \<notin> scratchMatrices h \<longrightarrow> cells st' a = cells st a)"
  by (auto simp: bindEntry_def split: if_splits prod.splits dest: bindSystemValue_frame)

lemma bindEntry_names:
  "bindEntry P sv h mesh scene key entry st = (r, st', cs) \<Longrightarrow> \<forall>c \<in> set cs. uniformName c = key"
  by (auto simp: bindEntry_def split: if_splits prod.splits
      dest: bindSystemValue_names bindDirectValue_names)

lemma bindLoop_frame:
  "bindLoop P sv h mesh scene led st = (r, st', cs) \<Longrightarrow>
     allocated st' = allocated st \<and> (\<forall>a. a \<notin> scratchMatrices h \<longrightarrow> cells st' a = cells st a)"
proof (induction led arbitrary: st r st' cs)
  case Nil
  then show ?case by simp
next
  case (Cons p led)
  obtain key entry where p: "p = (key, entry)" by (cases p)
  obtain r1 st1 cs1 where e: "bindEntry P sv h mesh scene key entry st = (r1, st1, cs1)"
    by (cases "bindEntry P sv h mesh scene key entry st")
  note f1 = bindEntry_frame [OF e]
  show ?case
  proof (cases r1)
    case (Some err)
    with Cons.prems p e f1 show ?thesis by simp
  next
    case None
    obtain r2 st2 cs2 where l: "bindLoop P sv h mesh scene led st1 = (r2, st2, cs2)"
      by (cases "bindLoop P sv h mesh scene led st1")
    from Cons.IH [OF l] f1 Cons.prems p e None l show ?thesis by simp
  qed
qed

lemma bindLoop_names:
  "bindLoop P sv h mesh scene led st = (r, st', cs) \<Longrightarrow> \<forall>c \<in> set cs. uniformName c \<in> fst ` set led"
proof (induction led arbitrary: st r st' cs)
  case Nil
  then show ?case by simp
next
  case (Cons p led)
  obtain key entry where p: "p = (key, entry)" by (cases p)
  obtain r1 st1 cs1 where e: "bindEntry P sv h mesh scene key entry st = (r1, st1, cs1)"
    by (cases "bindEntry P sv h mesh scene key entry st")
  note n1 = bindEntry_names [OF e]
  show ?case
  proof (cases r1)
    case (Some err)
    with Cons.prems p e n1 show ?thesis by auto
  next
    case None
    obtain r2 st2 cs2 where l: "bindLoop P sv h mesh scene led st1 = (r2, st2, cs2)"
      by (cases "bindLoop P sv h mesh scene led st1")
    from Cons.IH [OF l] n1 Cons.prems p e None l show ?thesis by auto
  qed
qed

subsection \<open>Two runs from stores that agree outside the scratch matrices\<close>

lemma bindSystemValue_two:
  assumes "separate h mesh scene" and "agree h stA stB"
    and "bindSystemValue P sv h mesh scene key t stA = (stA', csA)"
    and "bindSystemValue P sv h mesh scene key t stB = (stB', csB)"
  shows "csA = csB \<and> agree h stA' stB'
     \<and> (\<forall>a. cells stA' a = cells stB' a \<or> (cells stA' a = cells stA a \<and> cells stB' a = cells stB a))"
  using assms
  by (auto simp: bindSystemValue_def multiplyToRef_def separate_def agree_def Let_def
      split: if_splits option.splits)

lemma bindEntry_two:
  assumes "separate h mesh scene" and "agree h stA stB"
    and "bindEntry P sv h mesh scene key entry stA = (rA, stA', csA)"
    and "bindEntry P sv h mesh scene key entry stB = (rB, stB', csB)"
  shows "rA = rB \<and> csA = csB \<and> agree h stA' stB'
     \<and> (\<forall>a. cells stA' a = cells stB' a \<or> (cells stA' a = cells stA a \<and> cells stB' a = cells stB a))"
proof (cases "truthySystemValue (systemValueType entry)")
  case True
  obtain sA cA where a: "bindSystemValue P sv h mesh scene key (the (systemValueType entry)) stA = (sA, cA)"
    by (cases "bindSystemValue P sv h mesh scene key (the (systemValueType entry)) stA")
  obtain sB cB where b: "bindSystemValue P sv h mesh scene key (the (systemValueType entry)) stB = (sB, cB)"
    by (cases "bindSystemValue P sv h mesh scene key (the (systemValueType entry)) stB")
  from bindSystemValue_two [OF assms(1,2) a b] assms(3,4) True a b show ?thesis
    by (simp add: bindEntry_def)
next
  case False
  with assms show ?thesis
    by (auto simp: bindEntry_def split: prod.splits)
qed

lemma bindLoop_two:
  assumes "separate h mesh scene"
  shows "agree h stA stB \<Longrightarrow>
     bindLoop P sv h mesh scene led stA = (rA, stA', csA) \<Longrightarrow>
     bindLoop P sv h mesh scene led stB = (rB, stB', csB) \<Longrightarrow>
     rA = rB \<and> csA = csB \<and> agree h stA' stB'
     \<and> (\<forall>a. cells stA' a = cells stB' a \<or> (cells stA' a = cells stA a \<and> cells stB' a = cells stB a))"
proof (induction led arbitrary: stA stB rA stA' csA rB stB' csB)
  case Nil
  then show ?case by auto
next
  case (Cons p led)
  obtain key entry where p: "p = (key, entry)" by (cases p)
  obtain r1 sA1 c1 where eA: "bindEntry P sv h mesh scene key entry stA = (r1, sA1, c1)"
    by (cases "bindEntry P sv h mesh scene key entry stA")
  obtain r1' sB1 c1' where eB: "bindEntry P sv h mesh scene key entry stB = (r1', sB1, c1')"
    by (cases "bindEntry P sv h mesh scene key entry stB")
  note two = bindEntry_two [OF assms Cons.prems(1) eA eB]
  then have same: "r1' = r1" "c1' = c1" and ag: "agree h sA1 sB1"
    and cellsE: "\<forall>a. cells sA1 a = cells sB1 a \<or> (cells sA1 a = cells stA a \<and> cells sB1 a = cells stB a)"
    by blast+
  show ?case
  proof (cases r1)
    case (Some err)
    have "rA = r1" "stA' = sA1" "csA = c1" "rB = r1" "stB' = sB1" "csB = c1"
      using Cons.prems(2,3) p eA eB same Some by auto
    with ag cellsE show ?thesis by simp
  next
    case None
    obtain r2 sA2 c2 where lA: "bindLoop P sv h mesh scene led sA1 = (r2, sA2, c2)"
      by (cases "bindLoop P sv h mesh scene led sA1")
    obtain r2' sB2 c2' where lB: "bindLoop P sv h mesh scene led sB1 = (r2', sB2, c2')"
      by (cases "bindLoop P sv h mesh scene led sB1")
    from Cons.IH [OF ag lA lB]
    have ih: "r2 = r2'" "c2 = c2'" "agree h sA2 sB2"
      and cellsL: "\<forall>a. cells sA2 a = cells sB2 a \<or> (cells sA2 a = cells sA1 a \<and> cells sB2 a = cells sB1 a)"
      by blast+
    have resA: "rA = r2" "stA' = sA2" "csA = c1 @ c2"
      using Cons.prems(2) p eA None lA by auto
    have resB: "rB = r2'" "stB' = sB2" "csB = c1 @ c2'"
      using Cons.prems(3) p eB same None lB by auto
    have "\<forall>a. cells sA2 a = cells sB2 a \<or> (cells sA2 a = cells stA a \<and> cells sB2 a = cells stB a)"
      using cellsL cellsE by metis
    with ih resA resB show ?thesis by simp
  qed
qed

subsection \<open>Single entries\<close>

lemma wellFormedEnum_CameraParameters:
  assumes "wellFormedEnum sv"
  shows "CameraParameters sv \<noteq> 0" "CameraParameters sv \<noteq> World sv"
    "CameraParameters sv \<noteq> WorldView sv" "CameraParameters sv \<noteq> WorldViewProjection sv"
    "CameraParameters sv \<noteq> View sv" "CameraParameters sv \<noteq> Projection sv"
    "CameraParameters sv \<noteq> ViewProjection sv" "CameraParameters sv \<noteq> CameraPosition sv"
    "CameraParameters sv \<noteq> FogColor sv" "CameraParameters sv \<noteq> DeltaTime sv"
  using assms by (auto simp: wellFormedEnum_def members_def)

lemma wellFormedEnum_WorldViewProjection:
  assumes "wellFormedEnum sv"
  shows "WorldViewProjection sv \<noteq> 0" "WorldViewProjection sv \<noteq> World sv"
    "WorldViewProjection sv \<noteq> WorldView sv"
  using assms by (auto simp: wellFormedEnum_def members_def)

lemma bindEntry_keeps_wvp:
  assumes "separate h mesh scene" and "cachedWorldViewMatrix h \<noteq> cachedWorldViewProjectionMatrix h"
    and "wvpHolds P h mesh scene st"
    and "bindEntry P sv h mesh scene key entry st = (r, st', cs)"
  shows "wvpHolds P h mesh scene st'"
  using assms
  by (auto simp: bindEntry_def bindSystemValue_def multiplyToRef_def separate_def scratchMatrices_def
      wvpHolds_def Let_def split: if_splits option.splits prod.splits)

lemma bindLoop_keeps_wvp:
  assumes "separate h mesh scene" and "cachedWorldViewMatrix h \<noteq> cachedWorldViewProjectionMatrix h"
  shows "wvpHolds P h mesh scene st \<Longrightarrow> bindLoop P sv h mesh scene led st = (r, st', cs) \<Longrightarrow>
     wvpHolds P h mesh scene st'"
proof (induction led arbitrary: st r st' cs)
  case Nil
  then show ?case by simp
next
  case (Cons p led)
  obtain key entry where p: "p = (key, entry)" by (cases p)
  obtain r1 st1 cs1 where e: "bindEntry P sv h mesh scene key entry st = (r1, st1, cs1)"
    by (cases "bindEntry P sv h mesh scene key entry st")
  note k1 = bindEntry_keeps_wvp [OF assms Cons.prems(1) e]
  show ?case
  proof (cases r1)
    case (Some err)
    with Cons.prems(2) p e k1 show ?thesis by simp
  next
    case None
    obtain r2 st2 cs2 where l: "bindLoop P sv h mesh scene led st1 = (r2, st2, cs2)"
      by (cases "bindLoop P sv h mesh scene led st1")
    from Cons.IH [OF k1 l] Cons.prems(2) p e None l show ?thesis by simp
  qed
qed

lemma bindEntry_WorldViewProjection:
  assumes "wellFormedEnum sv" and "systemValueType entry = Some (WorldViewProjection sv)"
  shows "bindEntry P sv h mesh scene key entry st =
     (None,
      multiplyToRef P (getWorldMatrix mesh) (getTransformMatrix scene) (cachedWorldViewProjectionMatrix h) st,
      [setMatrix key (cachedWorldViewProjectionMatrix h)
         (multiply P (cells st (getWorldMatrix mesh)) (cells st (getTransformMatrix scene)))])"
  using assms(2) wellFormedEnum_WorldViewProjection [OF assms(1)]
  by (simp add: bindEntry_def bindSystemValue_def multiplyToRef_def Let_def)

lemma bindLoop_WorldViewProjection:
  assumes wf: "wellFormedEnum sv" and sep: "separate h mesh scene"
    and ne: "cachedWorldViewMatrix h \<noteq> cachedWorldViewProjectionMatrix h"
    and kind: "systemValueType entry = Some (WorldViewProjection sv)"
  shows "(key, entry) \<in> set led \<Longrightarrow> bindLoop P sv h mesh scene led st = (None, st', cs) \<Longrightarrow>
     cells st' (cachedWorldViewProjectionMatrix h)
       = multiply P (cells st (getWorldMatrix mesh)) (cells st (getTransformMatrix scene))
     \<and> setMatrix key (cachedWorldViewProjectionMatrix h)
          (multiply P (cells st (getWorldMatrix mesh)) (cells st (getTransformMatrix scene))) \<in> set cs"
proof (induction led arbitrary: st st' cs)
  case Nil
  then show ?case by simp
next
  case (Cons p led)
  obtain k e where p: "p = (k, e)" by (cases p)
  obtain r1 st1 cs1 where e: "bindEntry P sv h mesh scene k e st = (r1, st1, cs1)"
    by (cases "bindEntry P sv h mesh scene k e st")
  obtain r2 st2 cs2 where l: "bindLoop P sv h mesh scene led st1 = (r2, st2, cs2)"
    by (cases "bindLoop P sv h mesh scene led st1")
  have r1: "r1 = None"
    using Cons.prems(2) p e by (cases r1) simp_all
  have res: "r2 = None" "st' = st2" "cs = cs1 @ cs2"
    using Cons.prems(2) p e l r1 by simp_all
  have world: "cells st1 (getWorldMatrix mesh) = cells st (getWorldMatrix mesh)"
    and transform: "cells st1 (getTransformMatrix scene) = cells st (getTransformMatrix scene)"
    using bindEntry_frame [OF e] sep by (simp_all add: separate_def)
  show ?case
  proof (cases "p = (key, entry)")
    case True
    with p have ke: "k = key" "e = entry" by simp_all
    from e bindEntry_WorldViewProjection [OF wf kind, of P h mesh scene key st]
    have st1: "st1 = multiplyToRef P (getWorldMatrix mesh) (getTransformMatrix scene)
                       (cachedWorldViewProjectionMatrix h) st"
      and cs1: "cs1 = [setMatrix key (cachedWorldViewProjectionMatrix h)
                 (multiply P (cells st (getWorldMatrix mesh)) (cells st (getTransformMatrix scene)))]"
      by (simp_all add: ke)
    have "wvpHolds P h mesh scene st1"
      using world transform by (simp add: wvpHolds_def st1 multiplyToRef_def)
    from bindLoop_keeps_wvp [OF sep ne this l]
    have "wvpHolds P h mesh scene st2" .
    moreover have "cells st2 (getWorldMatrix mesh) = cells st1 (getWorldMatrix mesh)"
      "cells st2 (getTransformMatrix scene) = cells st1 (getTransformMatrix scene)"
      using bindLoop_frame [OF l] sep by (simp_all add: separate_def)
    ultimately show ?thesis
      using res cs1 world transform by (simp add: wvpHolds_def)
  next
    case False
    with Cons.prems(1) have "(key, entry) \<in> set led" by simp
    from Cons.IH [OF this l [unfolded res(1)]] res world transform show ?thesis by simp
  qed
qed

lemma construct_scratch:
  "cachedWorldViewMatrix (helper (construct P mat st0)) = allocated st0"
  "cachedWorldViewProjectionMatrix (helper (construct P mat st0)) = Suc (allocated st0)"
  "allocated (store (construct P mat st0)) = Suc (Suc (allocated st0))"
  by (simp_all add: construct_def newIdentity_def)

subsection \<open>Entries that are skipped, and the scratch fields\<close>

lemma unhandled_kind_skipped:
  assumes "systemValueType entry = Some t" and "t \<noteq> 0" and "t \<notin> set (members sv)"
  shows "bindEntry P sv h mesh scene key entry st = (None, st, [])"
  using assms by (simp add: bindEntry_def bindSystemValue_def members_def)

lemma unlisted_class_skipped:
  assumes "\<not> truthySystemValue (systemValueType entry)"
    and "directValue entry = JSObject (Some c) ps"
    and "c \<notin> {''Vector3'', ''Vector4'', ''Color3'', ''Color4''}"
  shows "bindEntry P sv h mesh scene key entry st = (None, st, [])"
  using assms by (simp add: bindEntry_def bindDirectValue_def)

lemma falsy_payload_skipped:
  assumes "\<not> truthySystemValue (systemValueType entry)" and "\<not> truthy P (directValue entry)"
  shows "bindEntry P sv h mesh scene key entry st = (None, st, [])"
  using assms by (simp add: bindEntry_def bindDirectValue_def)

lemma bindEntry_raises_iff:
  "fst (bindEntry P sv h mesh scene key entry st) \<noteq> None \<longleftrightarrow>
     \<not> truthySystemValue (systemValueType entry) \<and> truthy P (directValue entry)
     \<and> (\<forall>c ps. directValue entry \<noteq> JSObject (Some c) ps)"
proof (cases "truthySystemValue (systemValueType entry)")
  case True
  then show ?thesis by (simp add: bindEntry_def split: prod.split)
next
  case False
  then show ?thesis
    by (cases "directValue entry" rule: getClassName.cases)
      (simp_all add: bindEntry_def bindDirectValue_def)
qed

lemma scratch_fields_kept:
  "cachedWorldViewMatrix (helper (notifyBuild P s)) = cachedWorldViewMatrix (helper s)"
  "cachedWorldViewProjectionMatrix (helper (notifyBuild P s)) = cachedWorldViewProjectionMatrix (helper s)"
  "cachedWorldViewMatrix (helper (dispose s)) = cachedWorldViewMatrix (helper s)"
  "cachedWorldViewProjectionMatrix (helper (dispose s)) = cachedWorldViewProjectionMatrix (helper s)"
  by (simp_all add: notifyBuild_def buildHandler_def dispose_def Let_def split: prod.split option.split)

subsection \<open>The example system\<close>

lemma wellFormedEnum_exampleEnum: "wellFormedEnum exampleEnum"
  by (simp add: wellFormedEnum_def members_def exampleEnum_def)

lemma exampleSystem_helper:
  "helper exampleSystem =
     \<lparr>material = exampleMaterial,
      shaderMaterial = Some \<lparr>shaderName = ''shaderMaterial'', shaderScene = 0,
        vertexSource = ''void main() {}'', fragmentSource = ''void main() {}'',
        uniforms = [''u_wvp'', ''u_tint''], bindHandlers = 1\<rparr>,
      uniformLedger =
        [(''u_wvp'', \<lparr>systemValueType = Some 6, directValue = JSUndefined\<rparr>),
         (''u_tint'', \<lparr>systemValueType = None, directValue = exampleTint\<rparr>)],
      cachedWorldViewMatrix = 4, cachedWorldViewProjectionMatrix = 5,
      onShaderMaterialCreatedObservable = []\<rparr>"
  by (simp add: exampleSystem_def construct_def newIdentity_def notifyBuild_def buildHandler_def
      exampleMaterial_def entryFor_def emptyEntry_def examplePrimitives_def exampleStore_def
      exampleTint_def)

lemma exampleSystem_store:
  "store exampleSystem = \<lparr>cells = (cells exampleStore)(4 := [], 5 := []), allocated = 6\<rparr>"
  by (simp add: exampleSystem_def construct_def newIdentity_def notifyBuild_def buildHandler_def
      examplePrimitives_def exampleStore_def split: prod.split)

lemma example_run:
  "bindHandler examplePrimitives exampleEnum (helper exampleSystem) exampleMesh exampleScene
     (store exampleSystem)
     = (None, exampleStoreAfterBind,
        [setMatrix ''u_wvp'' 5 ''WT'', setColor4 ''u_tint'' exampleTint (JSNumber 0.5)])"
  by (simp add: exampleSystem_helper exampleSystem_store bindHandler_def bindEntry_def
      bindSystemValue_def bindDirectValue_def multiplyToRef_def exampleEnum_def exampleMesh_def
      exampleScene_def examplePrimitives_def exampleStore_def exampleTint_def
      exampleStoreAfterBind_def)

lemma example_separate: "separate (helper exampleSystem) exampleMesh exampleScene"
  by (simp add: separate_def scratchMatrices_def exampleSystem_helper exampleMesh_def exampleScene_def)

section \<open>The properties of the specification\<close>

text \<open>
  \<^bold>\<open>C1\<close>, as the code has it. Take any state of the helper in which the build callback
  is still registered, whatever its ledger and its observers. \<^verbatim>\<open>dispose()\<close> leaves it
  without shader material and without observers, and leaves the callback registered:
  it never touches the material's build observable. When the build-complete signal
  fires afterwards, the callback does all of its work: the ledger is filled and the shader
  material is created from the compilation strings and the uniform names, as without the
  disposal. The one difference is that no observer is told of the new shader material,
  since the disposal removed them all: the state after the signal is the state an
  undisposed helper reaches, with the observers emptied and the events as the disposal
  left them. Neither step has a raising statement.
\<close>

theorem dispose_does_not_cancel_build:
  assumes pending: "onBuildObservable s"
  shows "shaderMaterial (helper (dispose s)) = None
   \<and> onBuildObservable (dispose s)
   \<and> onShaderMaterialCreatedObservable (helper (dispose s)) = []
   \<and> (shaderMaterial (helper s) = None \<longrightarrow> events (dispose s) = events s)
   \<and> shaderMaterial (helper (notifyBuild P (dispose s))) =
       Some \<lparr>shaderName = ''shaderMaterial'', shaderScene = getScene (material (helper s)),
             vertexSource = compilationVertex (material (helper s)),
             fragmentSource = compilationFragment (material (helper s)),
             uniforms = fst (extractUniforms P (getInputBlocks (material (helper s)))
                              ([], uniformLedger (helper s))),
             bindHandlers = 1\<rparr>
   \<and> uniformLedger (helper (notifyBuild P (dispose s))) =
       snd (extractUniforms P (getInputBlocks (material (helper s))) ([], uniformLedger (helper s)))
   \<and> shaderMaterial (helper (notifyBuild P (dispose s))) = shaderMaterial (helper (notifyBuild P s))
   \<and> uniformLedger (helper (notifyBuild P (dispose s))) = uniformLedger (helper (notifyBuild P s))
   \<and> events (notifyBuild P (dispose s)) = events (dispose s)
   \<and> events (notifyBuild P s) =
       events s @ map (\<lambda>ob. ShaderMaterialCreated ob (the (shaderMaterial (helper (notifyBuild P s)))))
                    (onShaderMaterialCreatedObservable (helper s))
   \<and> notifyBuild P (dispose s) =
       (notifyBuild P s)\<lparr>helper := (helper (notifyBuild P s))\<lparr>onShaderMaterialCreatedObservable := []\<rparr>,
                          events := events (dispose s)\<rparr>"
  using assms
  by (simp add: dispose_def notifyBuild_def buildHandler_def Let_def split: prod.split option.split)

text \<open>
  A helper with one observer is disposed before the build: the disposal changes the
  state, the signal still creates the shader material, and the observer that an
  undisposed helper would have told is not told.
\<close>

theorem dispose_does_not_cancel_build_witness:
  "onBuildObservable listenerSystem
   \<and> shaderMaterial (helper listenerSystem) = None
   \<and> onShaderMaterialCreatedObservable (helper listenerSystem) = [7]
   \<and> onShaderMaterialCreatedObservable (helper (dispose listenerSystem)) = []
   \<and> dispose listenerSystem \<noteq> listenerSystem
   \<and> shaderMaterial (helper (notifyBuild examplePrimitives (dispose listenerSystem))) =
       Some \<lparr>shaderName = ''shaderMaterial'', shaderScene = 0,
             vertexSource = ''void main() {}'', fragmentSource = ''void main() {}'',
             uniforms = [''u_wvp'', ''u_tint''], bindHandlers = 1\<rparr>
   \<and> events (notifyBuild examplePrimitives (dispose listenerSystem)) = []
   \<and> events (notifyBuild examplePrimitives listenerSystem) =
       [ShaderMaterialCreated 7 \<lparr>shaderName = ''shaderMaterial'', shaderScene = 0,
             vertexSource = ''void main() {}'', fragmentSource = ''void main() {}'',
             uniforms = [''u_wvp'', ''u_tint''], bindHandlers = 1\<rparr>]"
proof -
  have pending: "onBuildObservable listenerSystem"
    and unbuilt: "shaderMaterial (helper listenerSystem) = None"
    and obs: "onShaderMaterialCreatedObservable (helper listenerSystem) = [7]"
    and ev: "events listenerSystem = []"
    by (simp_all add: listenerSystem_def construct_def newIdentity_def)
  have ne: "dispose listenerSystem \<noteq> listenerSystem"
  proof
    assume "dispose listenerSystem = listenerSystem"
    then have "onShaderMaterialCreatedObservable (helper (dispose listenerSystem))
        = onShaderMaterialCreatedObservable (helper listenerSystem)" by simp
    then show False using unbuilt obs by (simp add: dispose_def)
  qed
  have sm: "shaderMaterial (helper (notifyBuild examplePrimitives listenerSystem)) =
       Some \<lparr>shaderName = ''shaderMaterial'', shaderScene = 0,
             vertexSource = ''void main() {}'', fragmentSource = ''void main() {}'',
             uniforms = [''u_wvp'', ''u_tint''], bindHandlers = 1\<rparr>"
    by (simp add: listenerSystem_def construct_def newIdentity_def notifyBuild_def buildHandler_def
        exampleMaterial_def Let_def)
  note general = dispose_does_not_cancel_build [OF pending, of examplePrimitives]
  have built: "shaderMaterial (helper (notifyBuild examplePrimitives (dispose listenerSystem))) =
       Some \<lparr>shaderName = ''shaderMaterial'', shaderScene = 0,
             vertexSource = ''void main() {}'', fragmentSource = ''void main() {}'',
             uniforms = [''u_wvp'', ''u_tint''], bindHandlers = 1\<rparr>"
    using general sm by simp
  have cleared: "onShaderMaterialCreatedObservable (helper (dispose listenerSystem)) = []"
    using general by simp
  have silent: "events (notifyBuild examplePrimitives (dispose listenerSystem)) = []"
    using general unbuilt by (simp add: ev)
  have told: "events (notifyBuild examplePrimitives listenerSystem) =
       [ShaderMaterialCreated 7 \<lparr>shaderName = ''shaderMaterial'', shaderScene = 0,
             vertexSource = ''void main() {}'', fragmentSource = ''void main() {}'',
             uniforms = [''u_wvp'', ''u_tint''], bindHandlers = 1\<rparr>]"
    using general by (simp add: ev obs sm)
  show ?thesis
    using pending unbuilt obs ne built cleared silent told by simp
qed

text \<open>
  The statement that the shader material stays absent fails already for a material
  without input blocks.
\<close>

theorem dispose_then_build_counterexample:
  "shaderMaterial (helper (notifyBuild examplePrimitives
      (dispose (construct examplePrimitives emptyMaterial exampleStore)))) \<noteq> None"
  by (simp add: dispose_def construct_def newIdentity_def notifyBuild_def buildHandler_def
      emptyMaterial_def)

text \<open>
  \<^bold>\<open>C2\<close>, as the code has it. After the build handler has run on a constructed helper,
  the names in the ledger are exactly the names of the uniform input blocks, each name
  once. The entry of a name follows the last block declared under that name: it is
  tagged with the block's system value when the block is a system value; otherwise it
  carries the block's value when that value is truthy, and is empty when the value is
  absent or falsy.
\<close>

theorem ledger_of_build:
  "let blocks = getInputBlocks mat;
       led = uniformLedger (helper (notifyBuild P (construct P mat st)))
   in fst ` set led = associatedVariableName ` {b \<in> set blocks. isUniform b}
    \<and> distinct (map fst led)
    \<and> (\<forall>(n, e) \<in> set led. let b = last (declarationsOf n blocks) in
          b \<in> set blocks \<and> isUniform b \<and> associatedVariableName b = n
          \<and> systemValueType e = (if isSystemValue b then systemValue b else None)
          \<and> directValue e = (if \<not> isSystemValue b \<and> truthy P (blockValue b) then blockValue b else JSUndefined))"
proof -
  define led where "led = uniformLedger (helper (notifyBuild P (construct P mat st)))"
  have led: "led = snd (extractUniforms P (getInputBlocks mat) ([], []))"
    by (simp add: led_def construct_def newIdentity_def notifyBuild_def buildHandler_def split: prod.split)
  have keys: "fst ` set led = associatedVariableName ` {b \<in> set (getInputBlocks mat). isUniform b}"
    unfolding led by (simp add: extractUniforms_keys)
  have dist: "distinct (map fst led)"
    unfolding led by (simp add: extractUniforms_distinct)
  have entries: "let b = last (declarationsOf n (getInputBlocks mat)) in
          b \<in> set (getInputBlocks mat) \<and> isUniform b \<and> associatedVariableName b = n
          \<and> systemValueType e = (if isSystemValue b then systemValue b else None)
          \<and> directValue e = (if \<not> isSystemValue b \<and> truthy P (blockValue b) then blockValue b else JSUndefined)"
    if "(n, e) \<in> set led" for n e
  proof -
    from that dist have look: "map_of led n = Some e" by simp
    have ne: "declarationsOf n (getInputBlocks mat) \<noteq> []"
      using look unfolding led by (auto simp: extractUniforms_lookup split: if_splits)
    then have "last (declarationsOf n (getInputBlocks mat)) \<in> set (declarationsOf n (getInputBlocks mat))"
      by simp
    then have b: "last (declarationsOf n (getInputBlocks mat)) \<in> set (getInputBlocks mat)"
      "isUniform (last (declarationsOf n (getInputBlocks mat)))"
      "associatedVariableName (last (declarationsOf n (getInputBlocks mat))) = n"
      by (auto simp: declarationsOf_def)
    have e: "e = entryFor P (last (declarationsOf n (getInputBlocks mat)))"
      using look ne unfolding led by (simp add: extractUniforms_lookup)
    show ?thesis using b by (simp add: e entryFor_def emptyEntry_def Let_def)
  qed
  show ?thesis
    unfolding Let_def led_def [symmetric] using keys dist entries unfolding Let_def by blast
qed

theorem ledger_of_build_witness:
  "(''u_tint'', \<lparr>systemValueType = None, directValue = exampleTint\<rparr>)
      \<in> set (uniformLedger (helper (notifyBuild examplePrimitives
                (construct examplePrimitives exampleMaterial exampleStore))))
   \<and> last (declarationsOf ''u_tint'' (getInputBlocks exampleMaterial))
      = \<lparr>isUniform = True, associatedVariableName = ''u_tint'', isSystemValue = False,
          systemValue = None, blockValue = exampleTint\<rparr>
   \<and> fst ` set (uniformLedger (helper (notifyBuild examplePrimitives
                (construct examplePrimitives exampleMaterial exampleStore))))
      = {''u_wvp'', ''u_tint''}"
  using ledger_of_build [of exampleMaterial examplePrimitives exampleStore]
  by (simp add: construct_def newIdentity_def notifyBuild_def buildHandler_def exampleMaterial_def
      entryFor_def emptyEntry_def declarationsOf_def exampleTint_def examplePrimitives_def)

text \<open>
  A uniform declared with the static value 0 gets an entry that does not carry that
  value: the test \<^verbatim>\<open>if (inputBlock.value)\<close> is false for it.
\<close>

theorem falsy_static_value_counterexample:
  "uniformLedger (helper (notifyBuild examplePrimitives
      (construct examplePrimitives zeroFloatMaterial exampleStore)))
     = [(''u_float'', \<lparr>systemValueType = None, directValue = JSUndefined\<rparr>)]
   \<and> map blockValue (getInputBlocks zeroFloatMaterial) = [JSNumber 0]"
  by (simp add: construct_def newIdentity_def notifyBuild_def buildHandler_def zeroFloatMaterial_def
      entryFor_def emptyEntry_def examplePrimitives_def)

text \<open>
  \<^bold>\<open>C3\<close>. For an entry whose system value is CameraParameters, one pass of the loop body
  raises nothing and leaves the store alone. With an active camera it makes exactly one
  call, \<^verbatim>\<open>setFloat4\<close> with -1 or 1 according to \<^verbatim>\<open>hasOriginBottomLeft\<close>, then the
  camera's \<^verbatim>\<open>minZ\<close>, its \<^verbatim>\<open>maxZ\<close>, and 1 divided by \<^verbatim>\<open>maxZ\<close>; without an active camera
  it makes no call.
\<close>

theorem cameraParameters_pushed:
  assumes "wellFormedEnum sv" and "systemValueType entry = Some (CameraParameters sv)"
  shows "bindEntry P sv h mesh scene key entry st =
     (None, st,
      case activeCamera scene of
        Some camera \<Rightarrow>
          [setFloat4 key (if hasOriginBottomLeft scene then literal P (- 1) else literal P 1)
             (minZ camera) (maxZ camera) (divide P (literal P 1) (maxZ camera))]
      | None \<Rightarrow> [])"
  using assms(2) wellFormedEnum_CameraParameters [OF assms(1)]
  by (simp add: bindEntry_def bindSystemValue_def split: option.split)

theorem cameraParameters_pushed_witness:
  "wellFormedEnum exampleEnum
   \<and> bindEntry examplePrimitives exampleEnum (helper exampleSystem) exampleMesh exampleScene ''params''
        \<lparr>systemValueType = Some (CameraParameters exampleEnum), directValue = JSUndefined\<rparr>
        (store exampleSystem)
      = (None, store exampleSystem, [setFloat4 ''params'' (- 1) 0.1 100 0.01])
   \<and> bindEntry examplePrimitives exampleEnum (helper exampleSystem) exampleMesh
        (exampleScene\<lparr>activeCamera := None\<rparr>) ''params''
        \<lparr>systemValueType = Some (CameraParameters exampleEnum), directValue = JSUndefined\<rparr>
        (store exampleSystem)
      = (None, store exampleSystem, [])"
  using cameraParameters_pushed [OF wellFormedEnum_exampleEnum,
      of "\<lparr>systemValueType = Some (CameraParameters exampleEnum), directValue = JSUndefined\<rparr>"
         examplePrimitives "helper exampleSystem" exampleMesh exampleScene "''params''"
         "store exampleSystem"]
    cameraParameters_pushed [OF wellFormedEnum_exampleEnum,
      of "\<lparr>systemValueType = Some (CameraParameters exampleEnum), directValue = JSUndefined\<rparr>"
         examplePrimitives "helper exampleSystem" exampleMesh "exampleScene\<lparr>activeCamera := None\<rparr>"
         "''params''" "store exampleSystem"]
    wellFormedEnum_exampleEnum
  by (simp add: exampleScene_def examplePrimitives_def)

text \<open>
  \<^bold>\<open>C4\<close>, at an input where the code departs from it. The build handler itself produces
  this ledger from a float uniform with value 0.5 followed by the world matrix. The bind
  handler asks the number for its class name, which raises a TypeError; the loop is left,
  and the entry of the world matrix is never visited: no call is made at all.
\<close>

theorem numeric_payload_raises:
  "uniformLedger (helper floatSystem) =
     [(''u_float'', \<lparr>systemValueType = None, directValue = JSNumber 0.5\<rparr>),
      (''u_World'', \<lparr>systemValueType = Some 1, directValue = JSUndefined\<rparr>)]
   \<and> shaderMaterial (helper floatSystem) \<noteq> None
   \<and> bindHandler examplePrimitives exampleEnum (helper floatSystem) exampleMesh exampleScene
        (store floatSystem)
     = (Some (TypeError ''value.getClassName is not a function''), store floatSystem, [])"
  by (simp add: floatSystem_def construct_def newIdentity_def notifyBuild_def buildHandler_def
      floatMaterial_def entryFor_def emptyEntry_def examplePrimitives_def
      bindHandler_def bindEntry_def bindDirectValue_def)

text \<open>
  \<^bold>\<open>C5\<close>. Let \<open>h\<close> be a state of a helper made by the constructor (its two scratch fields
  are the ones the constructor set), with an entry of kind WorldViewProjection in its
  ledger, and take two bind calls that run to their end, each for a mesh and a scene
  whose matrices are not the helper's scratch matrices. Then the second scratch matrix
  is the object the constructor allocated; neither call allocates, and neither changes a
  matrix other than the two scratch matrices; after each call the second scratch
  matrix holds the product of the world matrix and the scene's transform matrix of that
  call; and each call passes that object, with that content, to \<^verbatim>\<open>setMatrix\<close> under
  the entry's name.
\<close>

theorem worldViewProjection_scratch_reused:
  assumes wf: "wellFormedEnum sv"
    and wv: "cachedWorldViewMatrix h = cachedWorldViewMatrix (helper (construct P mat st0))"
    and wvp: "cachedWorldViewProjectionMatrix h
                = cachedWorldViewProjectionMatrix (helper (construct P mat st0))"
    and entry: "(key, entry) \<in> set (uniformLedger h)"
    and kind: "systemValueType entry = Some (WorldViewProjection sv)"
    and sep1: "separate h mesh1 scene1" and sep2: "separate h mesh2 scene2"
    and run1: "bindHandler P sv h mesh1 scene1 st1 = (None, st1', cs1)"
    and run2: "bindHandler P sv h mesh2 scene2 st2 = (None, st2', cs2)"
  shows "cachedWorldViewProjectionMatrix h = Suc (allocated st0)
    \<and> cachedWorldViewProjectionMatrix h < allocated (store (construct P mat st0))
    \<and> allocated st1' = allocated st1 \<and> allocated st2' = allocated st2
    \<and> (\<forall>a. a \<notin> scratchMatrices h \<longrightarrow> cells st1' a = cells st1 a \<and> cells st2' a = cells st2 a)
    \<and> cells st1' (cachedWorldViewProjectionMatrix h)
         = multiply P (cells st1 (getWorldMatrix mesh1)) (cells st1 (getTransformMatrix scene1))
    \<and> cells st2' (cachedWorldViewProjectionMatrix h)
         = multiply P (cells st2 (getWorldMatrix mesh2)) (cells st2 (getTransformMatrix scene2))
    \<and> setMatrix key (cachedWorldViewProjectionMatrix h)
         (cells st1' (cachedWorldViewProjectionMatrix h)) \<in> set cs1
    \<and> setMatrix key (cachedWorldViewProjectionMatrix h)
         (cells st2' (cachedWorldViewProjectionMatrix h)) \<in> set cs2"
proof -
  have ne: "cachedWorldViewMatrix h \<noteq> cachedWorldViewProjectionMatrix h"
    by (simp add: wv wvp construct_scratch)
  have l1: "bindLoop P sv h mesh1 scene1 (uniformLedger h) st1 = (None, st1', cs1)"
    using run1 by (cases "shaderMaterial h") (simp_all add: bindHandler_def)
  have l2: "bindLoop P sv h mesh2 scene2 (uniformLedger h) st2 = (None, st2', cs2)"
    using run2 by (cases "shaderMaterial h") (simp_all add: bindHandler_def)
  note w1 = bindLoop_WorldViewProjection [OF wf sep1 ne kind entry l1]
  note w2 = bindLoop_WorldViewProjection [OF wf sep2 ne kind entry l2]
  note f1 = bindLoop_frame [OF l1]
  note f2 = bindLoop_frame [OF l2]
  show ?thesis
    using w1 w2 f1 f2 by (simp add: wvp construct_scratch)
qed

text \<open>
  The example system is bound twice in succession, the second time with the projection
  matrix in the place of the transform matrix.
\<close>

theorem worldViewProjection_scratch_reused_witness:
  "wellFormedEnum exampleEnum
   \<and> (''u_wvp'', \<lparr>systemValueType = Some (WorldViewProjection exampleEnum), directValue = JSUndefined\<rparr>)
        \<in> set (uniformLedger (helper exampleSystem))
   \<and> separate (helper exampleSystem) exampleMesh exampleScene
   \<and> separate (helper exampleSystem) exampleMesh (exampleScene\<lparr>getTransformMatrix := 2\<rparr>)
   \<and> bindHandler examplePrimitives exampleEnum (helper exampleSystem) exampleMesh exampleScene
        (store exampleSystem)
     = (None, exampleStoreAfterBind,
        [setMatrix ''u_wvp'' 5 ''WT'', setColor4 ''u_tint'' exampleTint (JSNumber 0.5)])
   \<and> bindHandler examplePrimitives exampleEnum (helper exampleSystem) exampleMesh
        (exampleScene\<lparr>getTransformMatrix := 2\<rparr>) exampleStoreAfterBind
     = (None, exampleStoreAfterBind\<lparr>cells := (cells exampleStoreAfterBind)(5 := ''WP'')\<rparr>,
        [setMatrix ''u_wvp'' 5 ''WP'', setColor4 ''u_tint'' exampleTint (JSNumber 0.5)])
   \<and> cachedWorldViewProjectionMatrix (helper exampleSystem) = 5
   \<and> allocated exampleStore = 4
   \<and> cells exampleStoreAfterBind 5 = ''WT''"
proof -
  let ?scene2 = "exampleScene\<lparr>getTransformMatrix := 2\<rparr>"
  let ?entry = "\<lparr>systemValueType = Some (WorldViewProjection exampleEnum),
                 directValue = (JSUndefined :: real any)\<rparr>"
  have wv: "cachedWorldViewMatrix (helper exampleSystem)
      = cachedWorldViewMatrix (helper (construct examplePrimitives exampleMaterial exampleStore))"
    and wvp: "cachedWorldViewProjectionMatrix (helper exampleSystem)
      = cachedWorldViewProjectionMatrix (helper (construct examplePrimitives exampleMaterial exampleStore))"
    by (simp_all add: exampleSystem_helper construct_def newIdentity_def exampleStore_def)
  have entry: "(''u_wvp'', ?entry) \<in> set (uniformLedger (helper exampleSystem))"
    by (simp add: exampleSystem_helper exampleEnum_def)
  have kind: "systemValueType ?entry = Some (WorldViewProjection exampleEnum)"
    by simp
  have sep2: "separate (helper exampleSystem) exampleMesh ?scene2"
    by (simp add: separate_def scratchMatrices_def exampleSystem_helper exampleMesh_def exampleScene_def)
  have run2: "bindHandler examplePrimitives exampleEnum (helper exampleSystem) exampleMesh ?scene2
        exampleStoreAfterBind
     = (None, exampleStoreAfterBind\<lparr>cells := (cells exampleStoreAfterBind)(5 := ''WP'')\<rparr>,
        [setMatrix ''u_wvp'' 5 ''WP'', setColor4 ''u_tint'' exampleTint (JSNumber 0.5)])"
    by (simp add: exampleSystem_helper bindHandler_def bindEntry_def bindSystemValue_def
      bindDirectValue_def multiplyToRef_def exampleEnum_def exampleMesh_def exampleScene_def
      examplePrimitives_def exampleStore_def exampleTint_def exampleStoreAfterBind_def)
  from worldViewProjection_scratch_reused [OF wellFormedEnum_exampleEnum wv wvp entry kind
      example_separate sep2 example_run run2]
  show ?thesis
    using wellFormedEnum_exampleEnum entry example_separate sep2 example_run run2
    by (simp add: exampleStore_def exampleStoreAfterBind_def exampleSystem_helper)
qed

text \<open>
  \<^bold>\<open>C6\<close>. For an entry with neither \<^verbatim>\<open>systemValueType\<close> nor \<^verbatim>\<open>directValue\<close> set, the loop
  body makes no call, raises nothing and leaves the store alone; and a bind loop over a
  ledger that holds such an entry, at any place, has the same outcome, the same store and
  the same calls as the loop over the ledger without it.
\<close>

theorem inert_entry_skipped:
  assumes "systemValueType entry = None" and "directValue entry = JSUndefined"
  shows "bindEntry P sv h mesh scene key entry st = (None, st, [])
     \<and> bindLoop P sv h mesh scene (before @ (key, entry) # after) st
         = bindLoop P sv h mesh scene (before @ after) st"
proof -
  have e: "bindEntry P sv h mesh scene key entry s = (None, s, [])" for s
    using assms by (simp add: bindEntry_def bindDirectValue_def)
  have "bindLoop P sv h mesh scene (before @ (key, entry) # after) s
         = bindLoop P sv h mesh scene (before @ after) s" for s
  proof (induction before arbitrary: s)
    case Nil
    show ?case by (simp add: e split: prod.split)
  next
    case (Cons p before)
    obtain k e' where p: "p = (k, e')" by (cases p)
    show ?case by (simp add: p Cons.IH split: prod.split option.split)
  qed
  with e show ?thesis by simp
qed

theorem inert_entry_skipped_witness:
  "systemValueType (emptyEntry :: real IUniformLedgerEntry) = None
   \<and> directValue (emptyEntry :: real IUniformLedgerEntry) = JSUndefined
   \<and> bindLoop examplePrimitives exampleEnum (helper exampleSystem) exampleMesh exampleScene
        ([(''u_wvp'', \<lparr>systemValueType = Some 6, directValue = JSUndefined\<rparr>)]
           @ (''u_inert'', emptyEntry) # [(''u_tint'', \<lparr>systemValueType = None, directValue = exampleTint\<rparr>)])
        (store exampleSystem)
     = (None, exampleStoreAfterBind,
        [setMatrix ''u_wvp'' 5 ''WT'', setColor4 ''u_tint'' exampleTint (JSNumber 0.5)])"
proof -
  have a: "systemValueType (emptyEntry :: real IUniformLedgerEntry) = None"
    and b: "directValue (emptyEntry :: real IUniformLedgerEntry) = JSUndefined"
    by (simp_all add: emptyEntry_def)
  from inert_entry_skipped [OF a b, of examplePrimitives exampleEnum "helper exampleSystem"
      exampleMesh exampleScene "''u_inert''" "store exampleSystem"
      "[(''u_wvp'', \<lparr>systemValueType = Some 6, directValue = JSUndefined\<rparr>)]"
      "[(''u_tint'', \<lparr>systemValueType = None, directValue = exampleTint\<rparr>)]"]
  show ?thesis
    using a b example_run by (simp add: bindHandler_def exampleSystem_helper)
qed

text \<open>
  \<^bold>\<open>C7\<close>. After \<^verbatim>\<open>dispose()\<close> the helper holds no shader material, and a second
  \<^verbatim>\<open>dispose()\<close> changes nothing at all: no field, no further call on a shader
  material. On a helper whose shader material was never created, \<^verbatim>\<open>dispose()\<close> makes
  no call on a shader material and changes nothing but the list of observers, which it
  empties; without observers it changes nothing. The function has no raising statement.
\<close>

theorem dispose_idempotent:
  "dispose (dispose s) = dispose s
   \<and> shaderMaterial (helper (dispose s)) = None
   \<and> shaderMaterial (helper (dispose (dispose s))) = None
   \<and> (shaderMaterial (helper s) = None \<longrightarrow>
        events (dispose s) = events s
        \<and> dispose s = s\<lparr>helper := (helper s)\<lparr>onShaderMaterialCreatedObservable := []\<rparr>\<rparr>)
   \<and> (shaderMaterial (helper s) = None \<and> onShaderMaterialCreatedObservable (helper s) = [] \<longrightarrow>
        dispose s = s)"
  by (simp add: dispose_def split: option.split)

theorem dispose_idempotent_witness:
  "shaderMaterial (helper (construct examplePrimitives emptyMaterial exampleStore)) = None
   \<and> onShaderMaterialCreatedObservable (helper (construct examplePrimitives emptyMaterial exampleStore)) = []
   \<and> dispose (construct examplePrimitives emptyMaterial exampleStore)
       = construct examplePrimitives emptyMaterial exampleStore
   \<and> dispose (dispose exampleSystem) = dispose exampleSystem
   \<and> events (dispose exampleSystem) = [ShaderMaterialDisposed (the (shaderMaterial (helper exampleSystem)))]"
  using dispose_idempotent [of "construct examplePrimitives emptyMaterial exampleStore"]
    dispose_idempotent [of exampleSystem]
  by (simp add: construct_def newIdentity_def dispose_def exampleSystem_def notifyBuild_def
      buildHandler_def split: prod.split)

text \<open>
  \<^bold>\<open>C8\<close>. For a mesh and a scene whose matrices are not the helper's scratch matrices: a
  bind call that follows another one, with the same mesh and scene and on the store the
  first call left, raises or completes as the first did, makes the same calls with the
  same values, and leaves the store as it found it.
\<close>

theorem dispatch_twice_identical:
  assumes sep: "separate h mesh scene"
    and run: "bindHandler P sv h mesh scene st = (r, st1, cs)"
  shows "bindHandler P sv h mesh scene st1 = (r, st1, cs)"
proof (cases "shaderMaterial h")
  case None
  with run show ?thesis by (auto simp: bindHandler_def)
next
  case (Some sm)
  from run Some have l1: "bindLoop P sv h mesh scene (uniformLedger h) st = (r, st1, cs)"
    by (simp add: bindHandler_def)
  obtain r2 st2 cs2 where l2: "bindLoop P sv h mesh scene (uniformLedger h) st1 = (r2, st2, cs2)"
    by (cases "bindLoop P sv h mesh scene (uniformLedger h) st1")
  from bindLoop_frame [OF l1] have ag: "agree h st st1"
    by (simp add: agree_def)
  from bindLoop_two [OF sep ag l1 l2]
  have eq: "r = r2" "cs = cs2" and ag2: "agree h st1 st2"
    and c: "\<forall>a. cells st1 a = cells st2 a \<or> (cells st1 a = cells st a \<and> cells st2 a = cells st1 a)"
    by blast+
  have "cells st2 = cells st1"
    using c by (metis ext)
  moreover have "allocated st2 = allocated st1"
    using ag2 by (simp add: agree_def)
  ultimately have "st2 = st1" by simp
  with l2 eq Some show ?thesis by (simp add: bindHandler_def)
qed

theorem dispatch_twice_identical_witness:
  "separate (helper exampleSystem) exampleMesh exampleScene
   \<and> bindHandler examplePrimitives exampleEnum (helper exampleSystem) exampleMesh exampleScene
        (store exampleSystem)
     = (None, exampleStoreAfterBind,
        [setMatrix ''u_wvp'' 5 ''WT'', setColor4 ''u_tint'' exampleTint (JSNumber 0.5)])
   \<and> bindHandler examplePrimitives exampleEnum (helper exampleSystem) exampleMesh exampleScene
        exampleStoreAfterBind
     = (None, exampleStoreAfterBind,
        [setMatrix ''u_wvp'' 5 ''WT'', setColor4 ''u_tint'' exampleTint (JSNumber 0.5)])"
  using dispatch_twice_identical [OF example_separate example_run] example_separate example_run
  by simp

text \<open>
  \<^bold>\<open>C9\<close>. An entry whose \<^verbatim>\<open>systemValueType\<close> is set to a kind (a non-zero code, as every
  member of a well-formed enumeration is) goes through the switch on the system value:
  the loop body raises nothing, its store and calls are those of the switch, and
  whatever \<^verbatim>\<open>directValue\<close> holds makes no difference.
\<close>

theorem system_value_takes_precedence:
  assumes "systemValueType entry = Some t" and "t \<noteq> 0"
  shows "bindEntry P sv h mesh scene key entry st =
           (None, fst (bindSystemValue P sv h mesh scene key t st),
                  snd (bindSystemValue P sv h mesh scene key t st))
     \<and> bindEntry P sv h mesh scene key (entry\<lparr>directValue := v\<rparr>) st
         = bindEntry P sv h mesh scene key entry st"
  using assms by (simp add: bindEntry_def split: prod.split)

theorem system_value_takes_precedence_witness:
  "World exampleEnum \<noteq> 0
   \<and> bindEntry examplePrimitives exampleEnum (helper exampleSystem) exampleMesh exampleScene ''u_World''
        \<lparr>systemValueType = Some (World exampleEnum), directValue = JSNumber 0.5\<rparr> (store exampleSystem)
     = (None, store exampleSystem, [setMatrix ''u_World'' 0 ''W''])
   \<and> bindEntry examplePrimitives exampleEnum (helper exampleSystem) exampleMesh exampleScene ''u_World''
        \<lparr>systemValueType = Some (World exampleEnum), directValue = JSUndefined\<rparr> (store exampleSystem)
     = (None, store exampleSystem, [setMatrix ''u_World'' 0 ''W''])"
proof -
  let ?entry = "\<lparr>systemValueType = Some (World exampleEnum), directValue = (JSUndefined :: real any)\<rparr>"
  have a: "systemValueType ?entry = Some (World exampleEnum)" by simp
  have b: "World exampleEnum \<noteq> 0" by (simp add: exampleEnum_def)
  from system_value_takes_precedence [OF a b, of examplePrimitives exampleEnum "helper exampleSystem"
      exampleMesh exampleScene "''u_World''" "store exampleSystem" "JSNumber 0.5"]
  show ?thesis
    using b by (simp add: bindSystemValue_def exampleMesh_def exampleSystem_store exampleStore_def)
qed

text \<open>
  \<^bold>\<open>C10\<close>. \<^verbatim>\<open>dispose()\<close> assigns neither the ledger field nor any of its entries: the
  getter \<^verbatim>\<open>ledger\<close> returns after the call what it returned before.
\<close>

theorem dispose_keeps_ledger: "ledger (helper (dispose s)) = ledger (helper s)"
  by (simp add: dispose_def ledger_def split: option.split)

end
